theory Spec2Isabelle
  imports Main
begin

section \<open>Values read from JSON and from the environment\<close>

text \<open>
  The program (\<^verbatim>\<open>index.py\<close>) reads races and their sessions as JSON dictionaries and
  reaches every field through \<^verbatim>\<open>dict.get\<close>. A field is therefore either absent
  (\<open>None\<close> of the option type) or holds a JSON value. The model covers the JSON scalars
  null, integer and string; \<^verbatim>\<open>str()\<close> and the f-strings render them as Python does.
  Strings are byte lists: a character outside ASCII is its UTF-8 bytes.
\<close>

datatype json = JNull | JNum int | JStr string

datatype py_error =
  TypeError | AttributeError | ValueError | OverflowError | OSError | ConflictingIdError | TelegramError

definition dict_get :: "json option \<Rightarrow> json \<Rightarrow> json" where
  "dict_get field dflt = (case field of None \<Rightarrow> dflt | Some v \<Rightarrow> v)"

definition digit_char :: "nat \<Rightarrow> char" where
  "digit_char d = ''0123456789'' ! d"

fun str_nat :: "nat \<Rightarrow> string" where
  "str_nat n = (if n < 10 then [digit_char n] else str_nat (n div 10) @ [digit_char (n mod 10)])"

declare str_nat.simps [simp del]

definition str_int :: "int \<Rightarrow> string" where
  "str_int i = (if i < 0 then CHR ''-'' # str_nat (nat (- i)) else str_nat (nat i))"

fun py_str :: "json \<Rightarrow> string" where
  "py_str JNull = ''None''"
| "py_str (JNum n) = str_int n"
| "py_str (JStr s) = s"

fun truthy :: "json \<Rightarrow> bool" where
  "truthy JNull = False"
| "truthy (JNum n) = (n \<noteq> 0)"
| "truthy (JStr s) = (s \<noteq> [])"

record sesion =
  sesion_id :: "json option"
  sesion_name :: "json option"
  sesion_startAt :: "json option"

record carrera =
  categoryId :: "json option"
  completeName :: "json option"
  schedules :: "sesion list option"

record config =
  TELEGRAM_TOKEN :: string
  TELEGRAM_CHANNEL_ID :: string
  DATABASE_URL :: string
  WEBHOOK_URL :: string
  PORT :: int
  API_URL :: string
  API_DAYS_AHEAD :: int
  NOTIFICATION_LEAD_HOURS :: int
  CHECK_INTERVAL_HOURS :: int
  F1_CATEGORY_ID :: string

section \<open>Time\<close>

text \<open>
  A \<^verbatim>\<open>datetime\<close> of the program is naive: a date and a time of day on the local wall
  clock, without a zone. The model counts it in microseconds from the wall-clock reading
  \<^verbatim>\<open>1970-01-01 00:00\<close>. Comparison and the subtraction of a \<^verbatim>\<open>timedelta\<close> work on
  these wall-clock values, not on instants.

  The host stands for the platform. \<open>instant h k\<close> is the instant, in microseconds since
  the epoch, at which the clock is read for the \<open>k\<close>-th time; \<open>localtime h t\<close> is the
  wall-clock reading at the instant \<open>t\<close>, so that \<open>clock h k\<close> is what the \<open>k\<close>-th call
  of \<^verbatim>\<open>datetime.now()\<close> returns. \<open>fromtimestamp h ms\<close> is what
  \<^verbatim>\<open>datetime.fromtimestamp(ms / 1000)\<close> does for an integer \<open>ms\<close>: it returns a naive
  datetime, after the rounding of the float division and of the conversion and under the
  rules of the local time zone, or it raises (\<^verbatim>\<open>ValueError\<close>, \<^verbatim>\<open>OverflowError\<close> or
  \<^verbatim>\<open>OSError\<close> out of the range of the platform). The world counts the readings of the
  clock.
\<close>

record host =
  instant :: "nat \<Rightarrow> int"
  localtime :: "int \<Rightarrow> int"
  fromtimestamp :: "int \<Rightarrow> py_error + int"

definition clock :: "host \<Rightarrow> nat \<Rightarrow> int" where
  "clock h k = localtime h (instant h k)"

record job =
  job_id :: string
  run_date :: int
  mensaje :: string
  job_name :: string

record world =
  jobs :: "job list"
  ticks :: nat

datatype 's outcome = Done 's | Raised py_error 's

definition datetime_now :: "host \<Rightarrow> world \<Rightarrow> int \<times> world" where
  "datetime_now h w = (clock h (ticks w), w\<lparr>ticks := Suc (ticks w)\<rparr>)"

text \<open>
  \<^verbatim>\<open>sesion.get('startAt', 0) / 1000\<close>: the division raises \<^verbatim>\<open>TypeError\<close> when the
  value is not a number and \<^verbatim>\<open>OverflowError\<close> when the quotient of an integer is beyond
  the floats. The result stands for the float: it is the integer that was divided.
\<close>

definition float_overflow :: int where
  "float_overflow = 1000 * (2 ^ 1024 - 2 ^ 970)"

definition timestamp_sesion :: "sesion \<Rightarrow> py_error + int" where
  "timestamp_sesion sesion =
     (case dict_get (sesion_startAt sesion) (JNum 0) of
        JNum ms \<Rightarrow>
          if - float_overflow < ms \<and> ms < float_overflow then Inr ms else Inl OverflowError
      | _ \<Rightarrow> Inl TypeError)"

text \<open>
  The first and the last naive datetime (years 1 to 9999). \<^verbatim>\<open>timedelta(hours=n)\<close>
  raises \<^verbatim>\<open>OverflowError\<close> beyond 999999999 days, and so does the subtraction of a
  \<^verbatim>\<open>timedelta\<close> from a \<^verbatim>\<open>datetime\<close> when the result is not a datetime.
\<close>

definition datetime_min :: int where
  "datetime_min = - 719162 * 86400000000"

definition datetime_max :: int where
  "datetime_max = 2932897 * 86400000000 - 1"

definition timedelta_hours :: "int \<Rightarrow> py_error + int" where
  "timedelta_hours n =
     (if - 999999999 \<le> n div 24 \<and> n div 24 \<le> 999999999 then Inr (n * 3600000000)
      else Inl OverflowError)"

definition datetime_sub :: "int \<Rightarrow> int \<Rightarrow> py_error + int" where
  "datetime_sub d td =
     (if datetime_min \<le> d - td \<and> d - td \<le> datetime_max then Inr (d - td)
      else Inl OverflowError)"

text \<open>
  The two datetimes of \<^verbatim>\<open>programar_avisos_para_sesion\<close>, named as there:
  \<^verbatim>\<open>fecha_hora_inicio\<close>, the naive local datetime of the start, and
  \<^verbatim>\<open>fecha_aviso_previo\<close>, the lead hours before it on the wall clock.
\<close>

definition fecha_hora_inicio :: "host \<Rightarrow> sesion \<Rightarrow> py_error + int" where
  "fecha_hora_inicio h sesion =
     (case timestamp_sesion sesion of Inl e \<Rightarrow> Inl e | Inr ms \<Rightarrow> fromtimestamp h ms)"

definition fecha_aviso_previo :: "config \<Rightarrow> int \<Rightarrow> py_error + int" where
  "fecha_aviso_previo cfg inicio =
     (case timedelta_hours (NOTIFICATION_LEAD_HOURS cfg) of
        Inl e \<Rightarrow> Inl e
      | Inr td \<Rightarrow> datetime_sub inicio td)"

definition two_digits :: "int \<Rightarrow> string" where
  "two_digits n = (if n < 10 then CHR ''0'' # str_int n else str_int n)"

text \<open>Month and day of the civil calendar from the number of days since 1970-01-01.\<close>

definition month_day :: "int \<Rightarrow> int \<times> int" where
  "month_day days =
     (let z = days + 719468;
          era = z div 146097;
          doe = z - era * 146097;
          yoe = (doe - doe div 1460 + doe div 36524 - doe div 146096) div 365;
          doy = doe - (365 * yoe + yoe div 4 - yoe div 100);
          mp = (5 * doy + 2) div 153;
          d = doy - (153 * mp + 2) div 5 + 1;
          m = (if mp < 10 then mp + 3 else mp - 9)
      in (m, d))"

text \<open>\<^verbatim>\<open>strftime('%H:%M hs del %d/%m')\<close> of a naive datetime.\<close>

definition strftime_hm_dm :: "int \<Rightarrow> string" where
  "strftime_hm_dm t =
     (let secs = t div 1000000;
          sod = secs mod 86400;
          (m, d) = month_day (secs div 86400)
      in two_digits (sod div 3600) @ '':'' @ two_digits ((sod mod 3600) div 60)
         @ '' hs del '' @ two_digits d @ ''/'' @ two_digits m)"

section \<open>The job store of the scheduler\<close>

text \<open>
  The scheduler and its job store are a library. The model keeps what the program uses
  of it: a store of jobs, each under an identifier; \<^verbatim>\<open>get_job\<close> finds the job of an
  identifier; \<^verbatim>\<open>add_job\<close> stores a job and, when the identifier is taken, replaces
  the stored job if \<^verbatim>\<open>replace_existing\<close> is set and raises
  \<^verbatim>\<open>ConflictingIdError\<close> otherwise.
\<close>

definition get_job :: "job list \<Rightarrow> string \<Rightarrow> job option" where
  "get_job js i = find (\<lambda>j. job_id j = i) js"

fun update_job :: "job \<Rightarrow> job list \<Rightarrow> job list" where
  "update_job j [] = []"
| "update_job j (k # ks) = (if job_id k = job_id j then j # ks else k # update_job j ks)"

definition add_job :: "job \<Rightarrow> bool \<Rightarrow> world \<Rightarrow> world outcome" where
  "add_job j replace_existing w =
     (case get_job (jobs w) (job_id j) of
        None \<Rightarrow> Done (w\<lparr>jobs := jobs w @ [j]\<rparr>)
      | Some _ \<Rightarrow>
          if replace_existing then Done (w\<lparr>jobs := update_job j (jobs w)\<rparr>)
          else Raised ConflictingIdError w)"

section \<open>Scheduling the two notices of a session\<close>

definition o_acute :: string where
  "o_acute = [CHR 0xC3, CHR 0xB3]"

definition inverted_exclamation :: string where
  "inverted_exclamation = [CHR 0xC2, CHR 0xA1]"

definition racing_car :: string where
  "racing_car = [CHR 0xF0, CHR 0x9F, CHR 0x8F, CHR 0x8E, CHR 0xEF, CHR 0xB8, CHR 0x8F]"

definition green_circle :: string where
  "green_circle = [CHR 0xF0, CHR 0x9F, CHR 0x9F, CHR 0xA2]"

definition mensaje_previo :: "config \<Rightarrow> json \<Rightarrow> json \<Rightarrow> int \<Rightarrow> string" where
  "mensaje_previo cfg nombre_sesion nombre_evento inicio =
     racing_car @ '' *'' @ inverted_exclamation @ ''Atenci'' @ o_acute @ ''n!* La sesi'' @ o_acute
     @ ''n **'' @ py_str nombre_sesion @ ''** de **'' @ py_str nombre_evento @ ''** ''
     @ ''comienza en '' @ str_int (NOTIFICATION_LEAD_HOURS cfg) @ '' horas (a las ''
     @ strftime_hm_dm inicio @ '').''"

definition mensaje_inicio :: "json \<Rightarrow> json \<Rightarrow> string" where
  "mensaje_inicio nombre_sesion nombre_evento =
     green_circle @ '' *'' @ inverted_exclamation @ ''Arranc'' @ o_acute @ ''!* La sesi'' @ o_acute
     @ ''n **'' @ py_str nombre_sesion @ ''** de **'' @ py_str nombre_evento @ ''** ha comenzado.''"

definition lead_job_id :: "config \<Rightarrow> json \<Rightarrow> string" where
  "lead_job_id cfg sid = py_str sid @ ''_channel_'' @ str_int (NOTIFICATION_LEAD_HOURS cfg) @ ''hr''"

definition start_job_id :: "json \<Rightarrow> string" where
  "start_job_id sid = py_str sid @ ''_channel_start''"

definition lead_job :: "config \<Rightarrow> json \<Rightarrow> json \<Rightarrow> json \<Rightarrow> int \<Rightarrow> int \<Rightarrow> job" where
  "lead_job cfg sid nombre_sesion nombre_evento inicio previo =
     \<lparr>job_id = lead_job_id cfg sid,
      run_date = previo,
      mensaje = mensaje_previo cfg nombre_sesion nombre_evento inicio,
      job_name = ''Notificaci'' @ o_acute @ ''n '' @ str_int (NOTIFICATION_LEAD_HOURS cfg)
                 @ ''h antes para '' @ py_str nombre_sesion\<rparr>"

definition start_job :: "json \<Rightarrow> json \<Rightarrow> json \<Rightarrow> int \<Rightarrow> job" where
  "start_job sid nombre_sesion nombre_evento inicio =
     \<lparr>job_id = start_job_id sid,
      run_date = inicio,
      mensaje = mensaje_inicio nombre_sesion nombre_evento,
      job_name = ''Notificaci'' @ o_acute @ ''n de inicio para '' @ py_str nombre_sesion\<rparr>"

text \<open>The defaults of \<^verbatim>\<open>sesion.get('name', ...)\<close> and \<^verbatim>\<open>carrera.get('completeName', ...)\<close>.\<close>

definition default_nombre_sesion :: json where
  "default_nombre_sesion = JStr (''Sesi'' @ o_acute @ ''n'')"

definition default_nombre_evento :: json where
  "default_nombre_evento = JStr ''Evento F1''"

definition programar_avisos_para_sesion ::
  "config \<Rightarrow> host \<Rightarrow> sesion \<Rightarrow> json \<Rightarrow> world \<Rightarrow> world outcome" where
  "programar_avisos_para_sesion cfg h sesion nombre_evento w =
     (let sid = dict_get (sesion_id sesion) JNull;
          nombre_sesion = dict_get (sesion_name sesion) default_nombre_sesion
      in case fecha_hora_inicio h sesion of
           Inl e \<Rightarrow> Raised e w
         | Inr inicio \<Rightarrow>
             (case fecha_aviso_previo cfg inicio of
                Inl e \<Rightarrow> Raised e w
              | Inr previo \<Rightarrow>
                  let (now1, w1) = datetime_now h w
                  in (case (if previo > now1
                            then add_job (lead_job cfg sid nombre_sesion nombre_evento inicio previo) True w1
                            else Done w1) of
                        Raised e w2 \<Rightarrow> Raised e w2
                      | Done w2 \<Rightarrow>
                          let (now2, w3) = datetime_now h w2
                          in if inicio > now2
                             then add_job (start_job sid nombre_sesion nombre_evento inicio) True w3
                             else Done w3)))"

section \<open>Fetching the races\<close>

text \<open>
  What the HTTP request of \<^verbatim>\<open>obtener_carreras_f1\<close> meets is an input of the model:
  either \<^verbatim>\<open>requests.get\<close>, \<^verbatim>\<open>raise_for_status\<close> or \<^verbatim>\<open>response.json\<close> raises a
  \<^verbatim>\<open>RequestException\<close>, or the body parses. A parsed body is a dictionary, with or
  without the key \<^verbatim>\<open>races\<close>, or some other JSON value, which has no method
  \<^verbatim>\<open>get\<close>. The function reads the clock once, for the bounds of the query.
\<close>

datatype request_exception = ConnectionError | Timeout | HTTPError | JSONDecodeError

datatype datos = DatosDict "carrera list option" | DatosNotDict

datatype http_reply = RequestFailed request_exception | Reply datos

definition obtener_carreras_f1 ::
  "config \<Rightarrow> host \<Rightarrow> http_reply \<Rightarrow> world \<Rightarrow> (py_error + carrera list) \<times> world" where
  "obtener_carreras_f1 cfg h reply w =
     (let (fecha_inicio, w1) = datetime_now h w
      in (case reply of
            RequestFailed e \<Rightarrow> Inr []
          | Reply DatosNotDict \<Rightarrow> Inl AttributeError
          | Reply (DatosDict races) \<Rightarrow>
              Inr (filter (\<lambda>c. categoryId c = Some (JStr (F1_CATEGORY_ID cfg)))
                     (case races of None \<Rightarrow> [] | Some cs \<Rightarrow> cs)),
          w1))"

section \<open>The periodic check\<close>

text \<open>
  \<^verbatim>\<open>check_for_races\<close> runs two nested loops with a counter of the sessions it
  scheduled. \<open>check_for_races_sesion\<close> is the body of the inner loop (the division is
  done for every session, the conversion to a datetime only when the \<^verbatim>\<open>id\<close> is truthy),
  \<open>check_for_races_schedules\<close> the inner loop and \<open>check_for_races_carreras\<close> the
  outer one. An exception leaves the loops with the world as it is at that point.
\<close>

definition check_for_races_sesion ::
  "config \<Rightarrow> host \<Rightarrow> json \<Rightarrow> sesion \<Rightarrow> world \<times> nat \<Rightarrow> (world \<times> nat) outcome" where
  "check_for_races_sesion cfg h nombre_evento sesion st =
     (let (w, nuevas) = st;
          sid = dict_get (sesion_id sesion) JNull
      in case timestamp_sesion sesion of
           Inl e \<Rightarrow> Raised e (w, nuevas)
         | Inr ms \<Rightarrow>
             if \<not> truthy sid then Done (w, nuevas)
             else
               (case fromtimestamp h ms of
                  Inl e \<Rightarrow> Raised e (w, nuevas)
                | Inr fecha \<Rightarrow>
                    let (now, w1) = datetime_now h w
                    in if fecha > now
                       then (case get_job (jobs w1) (start_job_id sid) of
                               Some job_existente \<Rightarrow> Done (w1, nuevas)
                             | None \<Rightarrow>
                                 (case programar_avisos_para_sesion cfg h sesion nombre_evento w1 of
                                    Raised e w2 \<Rightarrow> Raised e (w2, nuevas)
                                  | Done w2 \<Rightarrow> Done (w2, Suc nuevas)))
                       else Done (w1, nuevas)))"

fun check_for_races_schedules ::
  "config \<Rightarrow> host \<Rightarrow> json \<Rightarrow> sesion list \<Rightarrow> world \<times> nat \<Rightarrow> (world \<times> nat) outcome" where
  "check_for_races_schedules cfg h nombre_evento [] st = Done st"
| "check_for_races_schedules cfg h nombre_evento (sesion # rest) st =
     (case check_for_races_sesion cfg h nombre_evento sesion st of
        Raised e st' \<Rightarrow> Raised e st'
      | Done st' \<Rightarrow> check_for_races_schedules cfg h nombre_evento rest st')"

fun check_for_races_carreras ::
  "config \<Rightarrow> host \<Rightarrow> carrera list \<Rightarrow> world \<times> nat \<Rightarrow> (world \<times> nat) outcome" where
  "check_for_races_carreras cfg h [] st = Done st"
| "check_for_races_carreras cfg h (carrera # rest) st =
     (case check_for_races_schedules cfg h
             (dict_get (completeName carrera) default_nombre_evento)
             (case schedules carrera of None \<Rightarrow> [] | Some ss \<Rightarrow> ss) st of
        Raised e st' \<Rightarrow> Raised e st'
      | Done st' \<Rightarrow> check_for_races_carreras cfg h rest st')"

definition check_for_races ::
  "config \<Rightarrow> host \<Rightarrow> http_reply \<Rightarrow> world \<Rightarrow> (world \<times> nat) outcome" where
  "check_for_races cfg h reply w =
     (case obtener_carreras_f1 cfg h reply w of
        (Inl e, w1) \<Rightarrow> Raised e (w1, 0)
      | (Inr carreras_f1, w1) \<Rightarrow>
          if carreras_f1 = [] then Done (w1, 0)
          else check_for_races_carreras cfg h carreras_f1 (w1, 0))"

section \<open>Sending a notification\<close>




section \<open>Reading the configuration\<close>












section \<open>Auxiliary notions for the proofs\<close>

text \<open>What \<^verbatim>\<open>add_job\<close> with \<^verbatim>\<open>replace_existing=True\<close> makes of the store.\<close>

definition upsert :: "job \<Rightarrow> job list \<Rightarrow> job list" where
  "upsert j js = (if get_job js (job_id j) = None then js @ [j] else update_job j js)"

text \<open>The number of stored jobs under an identifier.\<close>

definition stored :: "world \<Rightarrow> string \<Rightarrow> nat" where
  "stored w i = length (filter (\<lambda>j. job_id j = i) (jobs w))"

text \<open>The two kinds of notice and the identifier of the job of each.\<close>

datatype kind = LEAD | START

fun trigger_id :: "config \<Rightarrow> kind \<Rightarrow> json \<Rightarrow> string" where
  "trigger_id cfg LEAD sid = lead_job_id cfg sid"
| "trigger_id cfg START sid = start_job_id sid"

text \<open>The state in which a run ended, normally or not.\<close>

fun state_of :: "'s outcome \<Rightarrow> 's" where
  "state_of (Done st) = st"
| "state_of (Raised e st) = st"

fun raised :: "'s outcome \<Rightarrow> py_error option" where
  "raised (Done st) = None"
| "raised (Raised e st) = Some e"






text \<open>A run that left the store and the counter as they were.\<close>

definition quiet :: "(world \<times> nat) outcome \<Rightarrow> world \<Rightarrow> nat \<Rightarrow> bool" where
  "quiet r w n \<longleftrightarrow>
     jobs (fst (state_of r)) = jobs w \<and> snd (state_of r) = n \<and> ticks w \<le> ticks (fst (state_of r))"

section \<open>Example inputs\<close>

text \<open>
  The configuration with the defaults of the module; a host on universal time whose
  conversions are exact within the range of \<^verbatim>\<open>datetime\<close> and whose clock starts one
  second after the epoch and advances by a microsecond at each reading; a session that
  starts ten hours after the epoch and one that starts at the epoch.
\<close>

definition config_ejemplo :: config where
  "config_ejemplo =
     \<lparr>TELEGRAM_TOKEN = ''token'', TELEGRAM_CHANNEL_ID = ''@canal'', DATABASE_URL = ''postgresql://db'',
      WEBHOOK_URL = ''https://bot.example'', PORT = 8080,
      API_URL = ''https://backend-vuelta-rapida-production.up.railway.app/api/races'',
      API_DAYS_AHEAD = 90, NOTIFICATION_LEAD_HOURS = 8, CHECK_INTERVAL_HOURS = 4,
      F1_CATEGORY_ID = ''f1''\<rparr>"

definition host_ejemplo :: host where
  "host_ejemplo =
     \<lparr>instant = (\<lambda>k. 1000000 + int k),
      localtime = (\<lambda>t. t),
      fromtimestamp = (\<lambda>ms. if datetime_min \<le> ms * 1000 \<and> ms * 1000 \<le> datetime_max
                             then Inr (ms * 1000) else Inl ValueError)\<rparr>"

definition sesion_futura :: sesion where
  "sesion_futura =
     \<lparr>sesion_id = Some (JStr ''s1''), sesion_name = Some (JStr ''Carrera''),
      sesion_startAt = Some (JNum 36000000)\<rparr>"

definition sesion_pasada :: sesion where
  "sesion_pasada =
     \<lparr>sesion_id = Some (JStr ''s0''), sesion_name = Some (JStr ''Practica''),
      sesion_startAt = Some (JNum 0)\<rparr>"

definition mundo_inicial :: world where
  "mundo_inicial = \<lparr>jobs = [], ticks = 0\<rparr>"

text \<open>
  A session without the key \<^verbatim>\<open>id\<close>, one whose \<^verbatim>\<open>id\<close> is the text \<^verbatim>\<open>None\<close>, one
  without the key \<^verbatim>\<open>startAt\<close> and one whose \<^verbatim>\<open>startAt\<close> is \<^verbatim>\<open>null\<close>.
\<close>

definition sesion_sin_id :: sesion where
  "sesion_sin_id =
     \<lparr>sesion_id = None, sesion_name = Some (JStr ''Carrera''),
      sesion_startAt = Some (JNum 36000000)\<rparr>"

definition sesion_id_None :: sesion where
  "sesion_id_None =
     \<lparr>sesion_id = Some (JStr ''None''), sesion_name = Some (JStr ''Sprint''),
      sesion_startAt = Some (JNum 72000000)\<rparr>"

definition sesion_sin_startAt :: sesion where
  "sesion_sin_startAt =
     \<lparr>sesion_id = Some (JStr ''s2''), sesion_name = Some (JStr ''Clasificacion''),
      sesion_startAt = None\<rparr>"

definition sesion_startAt_null :: sesion where
  "sesion_startAt_null =
     \<lparr>sesion_id = Some (JStr ''s3''), sesion_name = Some (JStr ''Libres''),
      sesion_startAt = Some JNull\<rparr>"

definition carrera_ejemplo :: carrera where
  "carrera_ejemplo =
     \<lparr>categoryId = Some (JStr ''f1''), completeName = Some (JStr ''GP''),
      schedules = Some [sesion_startAt_null, sesion_futura]\<rparr>"



text \<open>
  A host in the hour in which the clocks are set back: local time is two hours ahead
  of universal time until ten hours after the epoch and one hour ahead from then on. Its
  clock is read twice at 9:40 universal time (11:40 on the wall) and from then on at
  10:10 (11:10 on the wall). A session that started at 9:30 (11:30 on the wall), and one
  that starts at 12:00 (13:00 on the wall), with the same host read at 1:00.
\<close>

definition host_otono :: host where
  "host_otono =
     \<lparr>instant = (\<lambda>k. if k < 2 then 34800000000 + int k else 36600000000 + int k),
      localtime = (\<lambda>t. if t < 36000000000 then t + 7200000000 else t + 3600000000),
      fromtimestamp = (\<lambda>ms. if ms * 1000 < 36000000000 then Inr (ms * 1000 + 7200000000)
                             else Inr (ms * 1000 + 3600000000))\<rparr>"

definition sesion_empezada :: sesion where
  "sesion_empezada =
     \<lparr>sesion_id = Some (JStr ''s4''), sesion_name = Some (JStr ''Carrera''),
      sesion_startAt = Some (JNum 34200000)\<rparr>"

definition sesion_mediodia :: sesion where
  "sesion_mediodia =
     \<lparr>sesion_id = Some (JStr ''s5''), sesion_name = Some (JStr ''Carrera''),
      sesion_startAt = Some (JNum 43200000)\<rparr>"






section \<open>The job store: lookup, replacement, identifiers\<close>

lemma add_job_replace: "add_job j True w = Done (w\<lparr>jobs := upsert j (jobs w)\<rparr>)"
  by (simp add: add_job_def upsert_def split: option.splits)

lemma get_job_None_iff: "get_job js i = None \<longleftrightarrow> i \<notin> job_id ` set js"
  by (auto simp: get_job_def find_None_iff)

lemma get_job_update_job:
  "get_job (update_job j js) i =
     (if i = job_id j \<and> get_job js i \<noteq> None then Some j else get_job js i)"
  by (induction js) (auto simp: get_job_def)

lemma get_job_snoc:
  "get_job (js @ [j]) i =
     (case get_job js i of Some k \<Rightarrow> Some k | None \<Rightarrow> if job_id j = i then Some j else None)"
  by (induction js) (auto simp: get_job_def)

lemma get_job_upsert:
  "get_job (upsert j js) i = (if i = job_id j then Some j else get_job js i)"
  by (auto simp: upsert_def get_job_update_job get_job_snoc split: option.splits)

lemma update_job_same: "get_job js (job_id j) = Some j \<Longrightarrow> update_job j js = js"
  by (induction js) (auto simp: get_job_def split: if_splits)

lemma upsert_same: "get_job js (job_id j) = Some j \<Longrightarrow> upsert j js = js"
  by (simp add: upsert_def update_job_same)

lemma map_job_id_update_job: "map job_id (update_job j js) = map job_id js"
  by (induction js) auto

lemma distinct_upsert:
  "distinct (map job_id js) \<Longrightarrow> distinct (map job_id (upsert j js))"
  by (auto simp: upsert_def map_job_id_update_job get_job_None_iff)

lemma count_one:
  "distinct (map job_id js) \<Longrightarrow> get_job js i = Some j \<Longrightarrow> length (filter (\<lambda>k. job_id k = i) js) = 1"
proof (induction js)
  case Nil
  then show ?case by (simp add: get_job_def)
next
  case (Cons a js)
  show ?case
  proof (cases "job_id a = i")
    case True
    with Cons.prems have "i \<notin> job_id ` set js" by auto
    then have "filter (\<lambda>k. job_id k = i) js = []" by (auto simp: filter_empty_conv)
    with True show ?thesis by simp
  next
    case False
    with Cons show ?thesis by (simp add: get_job_def)
  qed
qed

lemma lead_start_ids_differ: "lead_job_id cfg a \<noteq> start_job_id b"
proof
  assume "lead_job_id cfg a = start_job_id b"
  then have "last (lead_job_id cfg a) = last (start_job_id b)" by simp
  then show False by (simp add: lead_job_id_def start_job_id_def)
qed

section \<open>What scheduling a session makes of the store\<close>

lemma fecha_aviso_previo_value:
  "fecha_aviso_previo cfg d = Inr p \<Longrightarrow> p = d - NOTIFICATION_LEAD_HOURS cfg * 3600000000"
  by (auto simp: fecha_aviso_previo_def timedelta_hours_def datetime_sub_def
      split: sum.splits if_splits)

lemma fecha_hora_inicio_value:
  "fecha_hora_inicio h s = Inr d \<Longrightarrow>
   \<exists>T. dict_get (sesion_startAt s) (JNum 0) = JNum T \<and> fromtimestamp h T = Inr d"
  by (auto simp: fecha_hora_inicio_def timestamp_sesion_def split: sum.splits json.splits if_splits)

lemma programar_Done:
  assumes "fecha_hora_inicio h s = Inr t" and "fecha_aviso_previo cfg t = Inr p"
  shows "programar_avisos_para_sesion cfg h s ev w =
     Done \<lparr>jobs =
        (let sid = dict_get (sesion_id s) JNull;
             nm = dict_get (sesion_name s) default_nombre_sesion;
             js1 = (if clock h (ticks w) < p
                    then upsert (lead_job cfg sid nm ev t p) (jobs w) else jobs w)
         in if clock h (Suc (ticks w)) < t then upsert (start_job sid nm ev t) js1 else js1),
        ticks = Suc (Suc (ticks w))\<rparr>"
  using assms
  by (simp add: programar_avisos_para_sesion_def datetime_now_def add_job_replace Let_def)

lemma programar_Raised_inicio:
  assumes "fecha_hora_inicio h s = Inl e"
  shows "programar_avisos_para_sesion cfg h s ev w = Raised e w"
  using assms by (simp add: programar_avisos_para_sesion_def)

lemma programar_Raised_previo:
  assumes "fecha_hora_inicio h s = Inr t" and "fecha_aviso_previo cfg t = Inl e"
  shows "programar_avisos_para_sesion cfg h s ev w = Raised e w"
  using assms by (simp add: programar_avisos_para_sesion_def)

lemma job_id_lead_job: "job_id (lead_job cfg sid nm ev t p) = lead_job_id cfg sid"
  by (simp add: lead_job_def)

lemma job_id_start_job: "job_id (start_job sid nm ev t) = start_job_id sid"
  by (simp add: start_job_def)

lemma run_date_lead_job: "run_date (lead_job cfg sid nm ev t p) = p"
  by (simp add: lead_job_def)

lemma run_date_start_job: "run_date (start_job sid nm ev t) = t"
  by (simp add: start_job_def)

lemmas job_fields = job_id_lead_job job_id_start_job run_date_lead_job run_date_start_job

lemmas ejemplo_defs = config_ejemplo_def host_ejemplo_def sesion_futura_def sesion_pasada_def
  mundo_inicial_def

lemmas render_defs = lead_job_id_def start_job_id_def str_int_def str_nat.simps digit_char_def
  dict_get_def

lemma inicio_futura: "fecha_hora_inicio host_ejemplo sesion_futura = Inr 36000000000"
  by code_simp

lemma previo_futura: "fecha_aviso_previo config_ejemplo 36000000000 = Inr 7200000000"
  by code_simp

lemma inicio_pasada: "fecha_hora_inicio host_ejemplo sesion_pasada = Inr 0"
  by code_simp

lemma previo_pasada: "fecha_aviso_previo config_ejemplo 0 = Inr (- 28800000000)"
  by code_simp

section \<open>Fire times\<close>

text \<open>
  C3, as the program has it. Let the start of the session convert to the naive local
  datetime \<open>D\<close> (what \<^verbatim>\<open>datetime.fromtimestamp\<close> makes of \<^verbatim>\<open>startAt / 1000\<close>) and let
  \<open>D\<close> minus the lead hours \<open>L\<close> be a datetime \<open>P\<close>. Then
  \<^verbatim>\<open>programar_avisos_para_sesion\<close> returns normally, and every notice it creates has
  the computed run date: the notice before the start, created when \<open>P\<close> is after the
  first reading of the clock, is stored under the identifier of the lead notice with
  run date \<open>D - L\<close> hours on the wall clock; the notice of the start, created when \<open>D\<close>
  is after the second reading, is stored under the identifier of the start notice with
  run date \<open>D\<close>.
\<close>

theorem lead_time_correctness:
  assumes "fecha_hora_inicio h s = Inr D" and "fecha_aviso_previo cfg D = Inr P"
  shows "(\<exists>T. dict_get (sesion_startAt s) (JNum 0) = JNum T \<and> fromtimestamp h T = Inr D) \<and>
     P = D - NOTIFICATION_LEAD_HOURS cfg * 3600000000 \<and>
     (\<exists>w'. programar_avisos_para_sesion cfg h s ev w = Done w' \<and>
       (clock h (ticks w) < P \<longrightarrow>
          (\<exists>j. get_job (jobs w') (lead_job_id cfg (dict_get (sesion_id s) JNull)) = Some j \<and>
               run_date j = D - NOTIFICATION_LEAD_HOURS cfg * 3600000000)) \<and>
       (clock h (Suc (ticks w)) < D \<longrightarrow>
          (\<exists>j. get_job (jobs w') (start_job_id (dict_get (sesion_id s) JNull)) = Some j \<and>
               run_date j = D)))"
  using lead_start_ids_differ [of cfg "dict_get (sesion_id s) JNull" "dict_get (sesion_id s) JNull"]
    fecha_aviso_previo_value [OF assms(2)] fecha_hora_inicio_value [OF assms(1)]
  by (simp add: programar_Done [OF assms] Let_def get_job_upsert job_fields)

theorem lead_time_correctness_witness:
  "fecha_hora_inicio host_ejemplo sesion_futura = Inr 36000000000 \<and>
   fecha_aviso_previo config_ejemplo 36000000000 = Inr 7200000000 \<and>
   (\<exists>w'. programar_avisos_para_sesion config_ejemplo host_ejemplo sesion_futura (JStr ''GP'')
           mundo_inicial = Done w' \<and>
      (\<exists>j. get_job (jobs w') ''s1_channel_8hr'' = Some j \<and> run_date j = 7200000000) \<and>
      (\<exists>j. get_job (jobs w') ''s1_channel_start'' = Some j \<and> run_date j = 36000000000))"
  using lead_time_correctness [OF inicio_futura previo_futura, of "JStr ''GP''" mundo_inicial]
    inicio_futura previo_futura
  by (auto simp: clock_def ejemplo_defs render_defs)

text \<open>
  In the hour in which the clocks are set back, a session at 12:00 universal time
  (13:00 on the wall) with eight lead hours: the notice before the start gets the run
  date 5:00 on the wall, while the instant eight hours before the start, 4:00 universal
  time, is 6:00 on the wall.
\<close>

theorem lead_time_counterexample:
  "fromtimestamp host_otono (43200000 - 8 * 3600000) = Inr 21600000000 \<and>
   map job_id (jobs (state_of (programar_avisos_para_sesion config_ejemplo
     (host_otono\<lparr>instant := (\<lambda>k. 3600000000 + int k)\<rparr>) sesion_mediodia (JStr ''GP'') mundo_inicial)))
     = [''s5_channel_8hr'', ''s5_channel_start''] \<and>
   map run_date (jobs (state_of (programar_avisos_para_sesion config_ejemplo
     (host_otono\<lparr>instant := (\<lambda>k. 3600000000 + int k)\<rparr>) sesion_mediodia (JStr ''GP'') mundo_inicial)))
     = [18000000000, 46800000000]"
  by code_simp

section \<open>No notice in the past\<close>

lemma set_upsert: "set (upsert j js) \<subseteq> insert j (set js)"
proof -
  have "set (update_job j js) \<subseteq> insert j (set js)"
    by (induction js) auto
  then show ?thesis by (auto simp: upsert_def)
qed

lemma stored_one:
  "distinct (map job_id (jobs w)) \<Longrightarrow> get_job (jobs w) i = Some j \<Longrightarrow> stored w i = 1"
  by (simp add: stored_def count_one)

text \<open>
  C2, as the program has it. When the start of the session does not convert to a
  datetime, or the lead hours before it are not a datetime,
  \<^verbatim>\<open>programar_avisos_para_sesion\<close> raises and leaves the store as it was. Otherwise it
  returns normally, and every job of the store it leaves was there before or is one of
  the two notices with a run date strictly after the reading of the clock at which it
  was created, both on the local wall clock. A session whose local start is not after
  the second reading gets no start notice. When moreover the lead hours are not negative
  and the local start is not after the first reading, which is not after the second,
  the store is left as it was: no notice of either kind, and no error.
\<close>

theorem no_past_triggers:
  "(fecha_hora_inicio h s = Inl e \<longrightarrow>
      programar_avisos_para_sesion cfg h s ev w = Raised e w) \<and>
   (fecha_hora_inicio h s = Inr D \<and> fecha_aviso_previo cfg D = Inl e \<longrightarrow>
      programar_avisos_para_sesion cfg h s ev w = Raised e w) \<and>
   (fecha_hora_inicio h s = Inr D \<and> fecha_aviso_previo cfg D = Inr P \<longrightarrow>
     (\<exists>w'. programar_avisos_para_sesion cfg h s ev w = Done w' \<and>
       (\<forall>j \<in> set (jobs w'). j \<in> set (jobs w)
          \<or> (job_id j = lead_job_id cfg (dict_get (sesion_id s) JNull) \<and> clock h (ticks w) < run_date j)
          \<or> (job_id j = start_job_id (dict_get (sesion_id s) JNull) \<and> clock h (Suc (ticks w)) < run_date j)) \<and>
       (D \<le> clock h (Suc (ticks w)) \<longrightarrow>
          get_job (jobs w') (start_job_id (dict_get (sesion_id s) JNull)) =
          get_job (jobs w) (start_job_id (dict_get (sesion_id s) JNull))) \<and>
       (0 \<le> NOTIFICATION_LEAD_HOURS cfg \<and> D \<le> clock h (ticks w)
          \<and> clock h (ticks w) \<le> clock h (Suc (ticks w)) \<longrightarrow> jobs w' = jobs w)))"
proof (intro conjI impI)
  assume "fecha_hora_inicio h s = Inl e"
  then show "programar_avisos_para_sesion cfg h s ev w = Raised e w"
    by (rule programar_Raised_inicio)
next
  assume "fecha_hora_inicio h s = Inr D \<and> fecha_aviso_previo cfg D = Inl e"
  then show "programar_avisos_para_sesion cfg h s ev w = Raised e w"
    by (simp add: programar_Raised_previo)
next
  assume a: "fecha_hora_inicio h s = Inr D \<and> fecha_aviso_previo cfg D = Inr P"
  let ?sid = "dict_get (sesion_id s) JNull"
  let ?nm = "dict_get (sesion_name s) default_nombre_sesion"
  define L where "L = lead_job cfg ?sid ?nm ev D P"
  define S where "S = start_job ?sid ?nm ev D"
  define js1 where "js1 = (if clock h (ticks w) < P then upsert L (jobs w) else jobs w)"
  define js2 where "js2 = (if clock h (Suc (ticks w)) < D then upsert S js1 else js1)"
  have P: "P = D - NOTIFICATION_LEAD_HOURS cfg * 3600000000"
    using a by (simp add: fecha_aviso_previo_value)
  have idL: "job_id L = lead_job_id cfg ?sid" "run_date L = P"
    and idS: "job_id S = start_job_id ?sid" "run_date S = D"
    by (simp_all add: L_def S_def job_fields)
  have run: "programar_avisos_para_sesion cfg h s ev w = Done \<lparr>jobs = js2, ticks = Suc (Suc (ticks w))\<rparr>"
    using a by (simp add: programar_Done Let_def js2_def js1_def L_def S_def)
  have x: "\<forall>j \<in> set js2. j \<in> set (jobs w)
        \<or> (job_id j = lead_job_id cfg ?sid \<and> clock h (ticks w) < run_date j)
        \<or> (job_id j = start_job_id ?sid \<and> clock h (Suc (ticks w)) < run_date j)"
  proof
    fix j assume "j \<in> set js2"
    then have "j \<in> set (jobs w) \<or> (j = L \<and> clock h (ticks w) < P)
       \<or> (j = S \<and> clock h (Suc (ticks w)) < D)"
      using set_upsert [of L "jobs w"] set_upsert [of S js1]
      by (auto simp: js2_def js1_def split: if_splits)
    then show "j \<in> set (jobs w)
        \<or> (job_id j = lead_job_id cfg ?sid \<and> clock h (ticks w) < run_date j)
        \<or> (job_id j = start_job_id ?sid \<and> clock h (Suc (ticks w)) < run_date j)"
      using idL idS by auto
  qed
  have y: "D \<le> clock h (Suc (ticks w)) \<longrightarrow>
        get_job js2 (start_job_id ?sid) = get_job (jobs w) (start_job_id ?sid)"
    using lead_start_ids_differ [of cfg ?sid ?sid]
    by (auto simp: js2_def js1_def get_job_upsert idL)
  have z: "0 \<le> NOTIFICATION_LEAD_HOURS cfg \<and> D \<le> clock h (ticks w)
        \<and> clock h (ticks w) \<le> clock h (Suc (ticks w)) \<longrightarrow> js2 = jobs w"
    using P by (auto simp: js2_def js1_def)
  from run x y z show "\<exists>w'. programar_avisos_para_sesion cfg h s ev w = Done w' \<and>
       (\<forall>j \<in> set (jobs w'). j \<in> set (jobs w)
          \<or> (job_id j = lead_job_id cfg ?sid \<and> clock h (ticks w) < run_date j)
          \<or> (job_id j = start_job_id ?sid \<and> clock h (Suc (ticks w)) < run_date j)) \<and>
       (D \<le> clock h (Suc (ticks w)) \<longrightarrow>
          get_job (jobs w') (start_job_id ?sid) = get_job (jobs w) (start_job_id ?sid)) \<and>
       (0 \<le> NOTIFICATION_LEAD_HOURS cfg \<and> D \<le> clock h (ticks w)
          \<and> clock h (ticks w) \<le> clock h (Suc (ticks w)) \<longrightarrow> jobs w' = jobs w)"
    by simp
qed

lemma inicio_null: "fecha_hora_inicio host_ejemplo sesion_startAt_null = Inl TypeError"
  by code_simp

lemma previo_desbordado:
  "fecha_aviso_previo (config_ejemplo\<lparr>NOTIFICATION_LEAD_HOURS := 18000000\<rparr>) 0 = Inl OverflowError"
  by code_simp

theorem no_past_triggers_witness:
  "fecha_hora_inicio host_ejemplo sesion_pasada = Inr 0 \<and>
   fecha_aviso_previo config_ejemplo 0 = Inr (- 28800000000) \<and>
   0 \<le> NOTIFICATION_LEAD_HOURS config_ejemplo \<and>
   0 = clock host_ejemplo (ticks mundo_inicial) - 1000000 \<and>
   clock host_ejemplo (ticks mundo_inicial) \<le> clock host_ejemplo (Suc (ticks mundo_inicial)) \<and>
   (\<exists>w'. programar_avisos_para_sesion config_ejemplo host_ejemplo sesion_pasada (JStr ''GP'')
           mundo_inicial = Done w' \<and> jobs w' = []) \<and>
   fecha_hora_inicio host_ejemplo sesion_startAt_null = Inl TypeError \<and>
   programar_avisos_para_sesion config_ejemplo host_ejemplo sesion_startAt_null (JStr ''GP'')
     mundo_inicial = Raised TypeError mundo_inicial \<and>
   fecha_aviso_previo (config_ejemplo\<lparr>NOTIFICATION_LEAD_HOURS := 18000000\<rparr>) 0 = Inl OverflowError \<and>
   programar_avisos_para_sesion (config_ejemplo\<lparr>NOTIFICATION_LEAD_HOURS := 18000000\<rparr>) host_ejemplo
     sesion_pasada (JStr ''GP'') mundo_inicial = Raised OverflowError mundo_inicial"
proof -
  have c: "0 \<le> NOTIFICATION_LEAD_HOURS config_ejemplo"
    "0 = clock host_ejemplo (ticks mundo_inicial) - 1000000"
    "clock host_ejemplo (ticks mundo_inicial) \<le> clock host_ejemplo (Suc (ticks mundo_inicial))"
    by (simp_all add: clock_def ejemplo_defs)
  have 1: "\<exists>w'. programar_avisos_para_sesion config_ejemplo host_ejemplo sesion_pasada (JStr ''GP'')
           mundo_inicial = Done w' \<and> jobs w' = []"
    using no_past_triggers [of host_ejemplo sesion_pasada TypeError config_ejemplo "JStr ''GP''"
        mundo_inicial 0 "- 28800000000"] inicio_pasada previo_pasada c
    by (auto simp: mundo_inicial_def)
  have 2: "programar_avisos_para_sesion config_ejemplo host_ejemplo sesion_startAt_null (JStr ''GP'')
     mundo_inicial = Raised TypeError mundo_inicial"
    using no_past_triggers [of host_ejemplo sesion_startAt_null TypeError config_ejemplo "JStr ''GP''"
        mundo_inicial 0 0] inicio_null
    by blast
  have 3: "programar_avisos_para_sesion (config_ejemplo\<lparr>NOTIFICATION_LEAD_HOURS := 18000000\<rparr>)
     host_ejemplo sesion_pasada (JStr ''GP'') mundo_inicial = Raised OverflowError mundo_inicial"
    using no_past_triggers [of host_ejemplo sesion_pasada OverflowError
        "config_ejemplo\<lparr>NOTIFICATION_LEAD_HOURS := 18000000\<rparr>" "JStr ''GP''" mundo_inicial 0 0]
      inicio_pasada previo_desbordado
    by blast
  from inicio_pasada previo_pasada c 1 inicio_null 2 previo_desbordado 3 show ?thesis
    by blast
qed

text \<open>
  With lead hours \<open>-1\<close> and a session that started one second before the first
  reading of the clock, the notice "before" the start is due an hour after the start,
  which is in the future: it is created. And in the hour in which the clocks are set
  back, a session that started at 9:30 universal time is scheduled at 10:10: its start
  reads 11:30 on the wall and the clock 11:10.
\<close>

theorem no_past_triggers_counterexample:
  "NOTIFICATION_LEAD_HOURS (config_ejemplo\<lparr>NOTIFICATION_LEAD_HOURS := - 1\<rparr>) = - 1 \<and>
   sesion_startAt sesion_pasada = Some (JNum 0) \<and>
   0 * 1000 = instant host_ejemplo (ticks mundo_inicial) - 1000000 \<and>
   raised (programar_avisos_para_sesion (config_ejemplo\<lparr>NOTIFICATION_LEAD_HOURS := - 1\<rparr>)
             host_ejemplo sesion_pasada (JStr ''GP'') mundo_inicial) = None \<and>
   map job_id (jobs (state_of (programar_avisos_para_sesion
       (config_ejemplo\<lparr>NOTIFICATION_LEAD_HOURS := - 1\<rparr>)
       host_ejemplo sesion_pasada (JStr ''GP'') mundo_inicial))) = [''s0_channel_-1hr''] \<and>
   map run_date (jobs (state_of (programar_avisos_para_sesion
       (config_ejemplo\<lparr>NOTIFICATION_LEAD_HOURS := - 1\<rparr>)
       host_ejemplo sesion_pasada (JStr ''GP'') mundo_inicial))) = [3600000000] \<and>
   sesion_startAt sesion_empezada = Some (JNum 34200000) \<and>
   34200000 * 1000 < instant host_otono 2 \<and>
   raised (programar_avisos_para_sesion config_ejemplo host_otono sesion_empezada (JStr ''GP'')
             \<lparr>jobs = [], ticks = 2\<rparr>) = None \<and>
   map job_id (jobs (state_of (programar_avisos_para_sesion config_ejemplo host_otono
       sesion_empezada (JStr ''GP'') \<lparr>jobs = [], ticks = 2\<rparr>))) = [''s4_channel_start'']"
  by code_simp

section \<open>Scheduling twice\<close>

text \<open>
  C1, as the program has it. Let the start of the session convert to a datetime and the
  lead hours before it be a datetime, and let the store hold one job per identifier.
  Then scheduling the same session twice returns normally both times, the store still
  holds one job per identifier, and each notice that either call created is stored
  exactly once under its identifier, as the job of this session: the second call
  replaces, it does not duplicate. When the readings of the clock of the second call
  are not before those of the first, the second call leaves the store exactly as the
  first call left it.
\<close>

theorem schedule_idempotent:
  assumes ini: "fecha_hora_inicio h s = Inr D"
    and pre: "fecha_aviso_previo cfg D = Inr P"
    and dist: "distinct (map job_id (jobs w))"
  shows "\<exists>w1 w2. programar_avisos_para_sesion cfg h s ev w = Done w1 \<and>
     programar_avisos_para_sesion cfg h s ev w1 = Done w2 \<and>
     distinct (map job_id (jobs w1)) \<and> distinct (map job_id (jobs w2)) \<and>
     (clock h (ticks w) < P \<or> clock h (Suc (Suc (ticks w))) < P \<longrightarrow>
        stored w2 (lead_job_id cfg (dict_get (sesion_id s) JNull)) = 1 \<and>
        get_job (jobs w2) (lead_job_id cfg (dict_get (sesion_id s) JNull)) =
          Some (lead_job cfg (dict_get (sesion_id s) JNull)
                  (dict_get (sesion_name s) default_nombre_sesion) ev D P)) \<and>
     (clock h (Suc (ticks w)) < D \<or> clock h (Suc (Suc (Suc (ticks w)))) < D \<longrightarrow>
        stored w2 (start_job_id (dict_get (sesion_id s) JNull)) = 1 \<and>
        get_job (jobs w2) (start_job_id (dict_get (sesion_id s) JNull)) =
          Some (start_job (dict_get (sesion_id s) JNull)
                  (dict_get (sesion_name s) default_nombre_sesion) ev D)) \<and>
     (clock h (ticks w) \<le> clock h (Suc (Suc (ticks w))) \<and>
      clock h (Suc (ticks w)) \<le> clock h (Suc (Suc (Suc (ticks w)))) \<longrightarrow>
        w2 = w1\<lparr>ticks := ticks w1 + 2\<rparr> \<and> jobs w2 = jobs w1)"
proof -
  let ?sid = "dict_get (sesion_id s) JNull"
  let ?nm = "dict_get (sesion_name s) default_nombre_sesion"
  define L where "L = lead_job cfg ?sid ?nm ev D P"
  define S where "S = start_job ?sid ?nm ev D"
  define c0 c1 c2 c3 where "c0 = clock h (ticks w)" and "c1 = clock h (Suc (ticks w))"
    and "c2 = clock h (Suc (Suc (ticks w)))" and "c3 = clock h (Suc (Suc (Suc (ticks w))))"
  define js1 where "js1 = (if c0 < P then upsert L (jobs w) else jobs w)"
  define js2 where "js2 = (if c1 < D then upsert S js1 else js1)"
  define js3 where "js3 = (if c2 < P then upsert L js2 else js2)"
  define js4 where "js4 = (if c3 < D then upsert S js3 else js3)"
  define w1 where "w1 = \<lparr>jobs = js2, ticks = Suc (Suc (ticks w))\<rparr>"
  define w2 where "w2 = \<lparr>jobs = js4, ticks = Suc (Suc (Suc (Suc (ticks w))))\<rparr>"
  have idL: "job_id L = lead_job_id cfg ?sid" and idS: "job_id S = start_job_id ?sid"
    by (simp_all add: L_def S_def job_fields)
  have neq: "lead_job_id cfg ?sid \<noteq> start_job_id ?sid"
    by (rule lead_start_ids_differ)
  have run1: "programar_avisos_para_sesion cfg h s ev w = Done w1"
    by (simp add: programar_Done [OF ini pre] Let_def w1_def js2_def js1_def L_def S_def
        c0_def c1_def)
  have run2: "programar_avisos_para_sesion cfg h s ev w1 = Done w2"
    by (simp add: programar_Done [OF ini pre] Let_def w1_def w2_def js4_def js3_def L_def S_def
        c2_def c3_def)
  have d2: "distinct (map job_id js2)"
    using dist by (simp add: js2_def js1_def distinct_upsert)
  then have d4: "distinct (map job_id js4)"
    by (simp add: js4_def js3_def distinct_upsert)
  have gL: "get_job js4 (lead_job_id cfg ?sid) = Some L" if "c0 < P \<or> c2 < P"
    using that neq by (auto simp: js4_def js3_def js2_def js1_def get_job_upsert idL idS)
  have gS: "get_job js4 (start_job_id ?sid) = Some S" if "c1 < D \<or> c3 < D"
    using that neq by (auto simp: js4_def js3_def js2_def js1_def get_job_upsert idL idS)
  have sL: "c0 < P \<or> c2 < P \<longrightarrow>
      stored w2 (lead_job_id cfg ?sid) = 1 \<and> get_job (jobs w2) (lead_job_id cfg ?sid) = Some L"
  proof
    assume "c0 < P \<or> c2 < P"
    from gL [OF this] have g: "get_job (jobs w2) (lead_job_id cfg ?sid) = Some L"
      by (simp add: w2_def)
    moreover from d4 have "distinct (map job_id (jobs w2))" by (simp add: w2_def)
    ultimately show "stored w2 (lead_job_id cfg ?sid) = 1 \<and>
        get_job (jobs w2) (lead_job_id cfg ?sid) = Some L"
      using stored_one by blast
  qed
  have sS: "c1 < D \<or> c3 < D \<longrightarrow>
      stored w2 (start_job_id ?sid) = 1 \<and> get_job (jobs w2) (start_job_id ?sid) = Some S"
  proof
    assume "c1 < D \<or> c3 < D"
    from gS [OF this] have g: "get_job (jobs w2) (start_job_id ?sid) = Some S"
      by (simp add: w2_def)
    moreover from d4 have "distinct (map job_id (jobs w2))" by (simp add: w2_def)
    ultimately show "stored w2 (start_job_id ?sid) = 1 \<and>
        get_job (jobs w2) (start_job_id ?sid) = Some S"
      using stored_one by blast
  qed
  have same: "c0 \<le> c2 \<and> c1 \<le> c3 \<longrightarrow> w2 = w1\<lparr>ticks := ticks w1 + 2\<rparr> \<and> jobs w2 = jobs w1"
  proof
    assume m: "c0 \<le> c2 \<and> c1 \<le> c3"
    have k3: "js3 = js2"
    proof (cases "c2 < P")
      case True
      with m have "c0 < P" by linarith
      then have "get_job js2 (job_id L) = Some L"
        using neq by (simp add: js2_def js1_def get_job_upsert idL idS)
      then have "upsert L js2 = js2" by (rule upsert_same)
      with True show ?thesis by (simp add: js3_def)
    next
      case False
      then show ?thesis by (simp add: js3_def)
    qed
    have k4: "js4 = js2"
    proof (cases "c3 < D")
      case True
      with m have "c1 < D" by linarith
      then have "get_job js2 (job_id S) = Some S"
        by (simp add: js2_def get_job_upsert idS)
      then have "upsert S js2 = js2" by (rule upsert_same)
      with True k3 show ?thesis by (simp add: js4_def)
    next
      case False
      with k3 show ?thesis by (simp add: js4_def)
    qed
    then show "w2 = w1\<lparr>ticks := ticks w1 + 2\<rparr> \<and> jobs w2 = jobs w1"
      by (simp add: w1_def w2_def)
  qed
  from d2 d4 have dd: "distinct (map job_id (jobs w1))" "distinct (map job_id (jobs w2))"
    by (simp_all add: w1_def w2_def)
  from run1 run2 dd sL sS same show ?thesis
    unfolding L_def S_def c0_def c1_def c2_def c3_def by blast
qed

theorem schedule_idempotent_witness:
  "fecha_hora_inicio host_ejemplo sesion_futura = Inr 36000000000 \<and>
   fecha_aviso_previo config_ejemplo 36000000000 = Inr 7200000000 \<and>
   distinct (map job_id (jobs mundo_inicial)) \<and>
   clock host_ejemplo 0 < 7200000000 \<and> clock host_ejemplo 1 < 36000000000 \<and>
   clock host_ejemplo 0 \<le> clock host_ejemplo 2 \<and> clock host_ejemplo 1 \<le> clock host_ejemplo 3 \<and>
   (\<exists>w1 w2. programar_avisos_para_sesion config_ejemplo host_ejemplo sesion_futura (JStr ''GP'')
           mundo_inicial = Done w1 \<and>
      programar_avisos_para_sesion config_ejemplo host_ejemplo sesion_futura (JStr ''GP'') w1
        = Done w2 \<and>
      jobs w2 = jobs w1 \<and>
      stored w2 ''s1_channel_8hr'' = 1 \<and> stored w2 ''s1_channel_start'' = 1)"
proof -
  have d: "distinct (map job_id (jobs mundo_inicial))"
    by (simp add: mundo_inicial_def)
  have c: "clock host_ejemplo 0 < 7200000000" "clock host_ejemplo 1 < 36000000000"
    "clock host_ejemplo 0 \<le> clock host_ejemplo 2" "clock host_ejemplo 1 \<le> clock host_ejemplo 3"
    by (simp_all add: clock_def host_ejemplo_def)
  have c': "clock host_ejemplo (ticks mundo_inicial) < 7200000000"
    "clock host_ejemplo (Suc (ticks mundo_inicial)) < 36000000000"
    "clock host_ejemplo (ticks mundo_inicial) \<le> clock host_ejemplo (Suc (Suc (ticks mundo_inicial)))"
    "clock host_ejemplo (Suc (ticks mundo_inicial))
       \<le> clock host_ejemplo (Suc (Suc (Suc (ticks mundo_inicial))))"
    by (simp_all add: clock_def host_ejemplo_def mundo_inicial_def)
  have i: "lead_job_id config_ejemplo (dict_get (sesion_id sesion_futura) JNull) = ''s1_channel_8hr''"
    "start_job_id (dict_get (sesion_id sesion_futura) JNull) = ''s1_channel_start''"
    by (simp_all add: ejemplo_defs render_defs)
  from schedule_idempotent [OF inicio_futura previo_futura d, of "JStr ''GP''"] c'
  obtain w1 w2 where
    "programar_avisos_para_sesion config_ejemplo host_ejemplo sesion_futura (JStr ''GP'')
       mundo_inicial = Done w1"
    "programar_avisos_para_sesion config_ejemplo host_ejemplo sesion_futura (JStr ''GP'') w1
       = Done w2"
    "jobs w2 = jobs w1"
    "stored w2 (lead_job_id config_ejemplo (dict_get (sesion_id sesion_futura) JNull)) = 1"
    "stored w2 (start_job_id (dict_get (sesion_id sesion_futura) JNull)) = 1"
    by blast
  then have "\<exists>w1 w2. programar_avisos_para_sesion config_ejemplo host_ejemplo sesion_futura (JStr ''GP'')
           mundo_inicial = Done w1 \<and>
      programar_avisos_para_sesion config_ejemplo host_ejemplo sesion_futura (JStr ''GP'') w1
        = Done w2 \<and>
      jobs w2 = jobs w1 \<and>
      stored w2 ''s1_channel_8hr'' = 1 \<and> stored w2 ''s1_channel_start'' = 1"
    unfolding i by blast
  with inicio_futura previo_futura d c show ?thesis by blast
qed

text \<open>
  In the hour in which the clocks are set back: the first call, at 11:40 on the wall,
  passes over the session that started at 11:30 on the wall; the second call, half an
  hour later at 11:10 on the wall, schedules the notice of its start.
\<close>

theorem schedule_idempotent_counterexample:
  "raised (programar_avisos_para_sesion config_ejemplo host_otono sesion_empezada (JStr ''GP'')
             mundo_inicial) = None \<and>
   jobs (state_of (programar_avisos_para_sesion config_ejemplo host_otono sesion_empezada
          (JStr ''GP'') mundo_inicial)) = [] \<and>
   instant host_otono 0 < instant host_otono 2 \<and>
   raised (programar_avisos_para_sesion config_ejemplo host_otono sesion_empezada (JStr ''GP'')
             (state_of (programar_avisos_para_sesion config_ejemplo host_otono sesion_empezada
                (JStr ''GP'') mundo_inicial))) = None \<and>
   map job_id (jobs (state_of (programar_avisos_para_sesion config_ejemplo host_otono
       sesion_empezada (JStr ''GP'')
       (state_of (programar_avisos_para_sesion config_ejemplo host_otono sesion_empezada
          (JStr ''GP'') mundo_inicial))))) = [''s4_channel_start'']"
  by code_simp

section \<open>Identifiers of the jobs\<close>

lemma lead_job_id_inject: "lead_job_id cfg (JStr a) = lead_job_id cfg (JStr b) \<longleftrightarrow> a = b"
  by (simp add: lead_job_id_def)

lemma start_job_id_inject: "start_job_id (JStr a) = start_job_id (JStr b) \<longleftrightarrow> a = b"
  by (simp add: start_job_id_def)

text \<open>
  C6, as the program has it. The identifier under which a notice is stored is the
  rendering of the session's \<^verbatim>\<open>id\<close> followed by \<^verbatim>\<open>_channel_<lead hours>hr\<close> for the
  notice before the start and by \<^verbatim>\<open>_channel_start\<close> for the notice of the start: it
  depends on the session's \<^verbatim>\<open>id\<close>, the kind and the configured lead hours, and on
  nothing else of the session, the event or the clock. For sessions whose \<^verbatim>\<open>id\<close> is a
  string, two pairs of an \<^verbatim>\<open>id\<close> and a kind have the same identifier only if they are
  the same pair.
\<close>

theorem trigger_id_deterministic_injective:
  "job_id (lead_job cfg sid nm ev t p) = trigger_id cfg LEAD sid \<and>
   job_id (start_job sid nm ev t) = trigger_id cfg START sid \<and>
   (trigger_id cfg k (JStr a) = trigger_id cfg k' (JStr b) \<longleftrightarrow> k = k' \<and> a = b)"
proof -
  have "trigger_id cfg k (JStr a) = trigger_id cfg k' (JStr b) \<longleftrightarrow> k = k' \<and> a = b"
    using lead_start_ids_differ [of cfg "JStr a" "JStr b"] lead_start_ids_differ [of cfg "JStr b" "JStr a"]
    by (cases k; cases k') (auto simp: lead_job_id_inject start_job_id_inject)
  then show ?thesis by (simp add: job_fields)
qed

theorem trigger_id_deterministic_injective_witness:
  "trigger_id config_ejemplo LEAD (JStr ''s1'') \<noteq> trigger_id config_ejemplo START (JStr ''s1'') \<and>
   trigger_id config_ejemplo START (JStr ''s1'') \<noteq> trigger_id config_ejemplo START (JStr ''s2'') \<and>
   trigger_id config_ejemplo LEAD (JStr ''s1'') = ''s1_channel_8hr''"
  using trigger_id_deterministic_injective [of config_ejemplo "JStr ''s1''" JNull JNull 0 0 LEAD "''s1''" START "''s1''"]
    trigger_id_deterministic_injective [of config_ejemplo "JStr ''s1''" JNull JNull 0 0 START "''s1''" START "''s2''"]
  by (simp add: ejemplo_defs render_defs)

text \<open>
  A session without \<^verbatim>\<open>id\<close> is rendered \<^verbatim>\<open>None\<close> and shares both identifiers with
  the session whose \<^verbatim>\<open>id\<close> is the text \<^verbatim>\<open>None\<close>; the number \<open>1\<close> and the text
  \<^verbatim>\<open>1\<close> share theirs; and the identifier of the notice before the start changes with
  the configured lead hours.
\<close>

theorem trigger_id_counterexample:
  "dict_get (sesion_id sesion_sin_id) JNull \<noteq> dict_get (sesion_id sesion_id_None) JNull \<and>
   trigger_id config_ejemplo START (dict_get (sesion_id sesion_sin_id) JNull) =
   trigger_id config_ejemplo START (dict_get (sesion_id sesion_id_None) JNull) \<and>
   trigger_id config_ejemplo LEAD (dict_get (sesion_id sesion_sin_id) JNull) =
   trigger_id config_ejemplo LEAD (dict_get (sesion_id sesion_id_None) JNull) \<and>
   JNum 1 \<noteq> JStr ''1'' \<and>
   trigger_id config_ejemplo START (JNum 1) = trigger_id config_ejemplo START (JStr ''1'') \<and>
   trigger_id config_ejemplo LEAD (JStr ''s1'') \<noteq>
   trigger_id (config_ejemplo\<lparr>NOTIFICATION_LEAD_HOURS := 4\<rparr>) LEAD (JStr ''s1'')"
  by (simp add: sesion_sin_id_def sesion_id_None_def config_ejemplo_def render_defs)

section \<open>The body of the loop over the sessions\<close>

lemma fecha_hora_inicio_Inr:
  "fecha_hora_inicio h s = Inr t \<longleftrightarrow> (\<exists>ms. timestamp_sesion s = Inr ms \<and> fromtimestamp h ms = Inr t)"
  by (auto simp: fecha_hora_inicio_def split: sum.splits)

lemma fecha_hora_inicio_Inl:
  "fecha_hora_inicio h s = Inl e \<longleftrightarrow>
     timestamp_sesion s = Inl e \<or> (\<exists>ms. timestamp_sesion s = Inr ms \<and> fromtimestamp h ms = Inl e)"
  by (auto simp: fecha_hora_inicio_def split: sum.splits)

lemma sesion_raised:
  "timestamp_sesion s = Inl e \<Longrightarrow> check_for_races_sesion cfg h ev s (w, n) = Raised e (w, n)"
  by (simp add: check_for_races_sesion_def)

lemma sesion_falsy:
  "timestamp_sesion s = Inr ms \<Longrightarrow> \<not> truthy (dict_get (sesion_id s) JNull) \<Longrightarrow>
   check_for_races_sesion cfg h ev s (w, n) = Done (w, n)"
  by (simp add: check_for_races_sesion_def)

lemma sesion_raised_inicio:
  "truthy (dict_get (sesion_id s) JNull) \<Longrightarrow> fecha_hora_inicio h s = Inl e \<Longrightarrow>
   check_for_races_sesion cfg h ev s (w, n) = Raised e (w, n)"
  by (auto simp: check_for_races_sesion_def fecha_hora_inicio_Inl)

lemma sesion_past:
  "fecha_hora_inicio h s = Inr t \<Longrightarrow>
   truthy (dict_get (sesion_id s) JNull) \<Longrightarrow> t \<le> clock h (ticks w) \<Longrightarrow>
   check_for_races_sesion cfg h ev s (w, n) = Done (w\<lparr>ticks := Suc (ticks w)\<rparr>, n)"
  by (auto simp: check_for_races_sesion_def datetime_now_def fecha_hora_inicio_Inr)



text \<open>
  C10. Processing a session without the key \<^verbatim>\<open>id\<close> leaves the store and the counter
  of \<^verbatim>\<open>check_for_races\<close> as they were. For a session without the key
  \<^verbatim>\<open>startAt\<close> the timestamp is 0, the epoch, and its start is the local datetime of
  the epoch; when that is not after the reading of the clock, processing the session
  ends normally and leaves the store and the counter as they were; and they are also
  left as they were when the conversion of the epoch raises.
\<close>

theorem missing_fields_schedule_nothing:
  "(sesion_id s = None \<longrightarrow>
      jobs (fst (state_of (check_for_races_sesion cfg h ev s (w, n)))) = jobs w \<and>
      snd (state_of (check_for_races_sesion cfg h ev s (w, n))) = n) \<and>
   (sesion_startAt s = None \<longrightarrow>
      timestamp_sesion s = Inr 0 \<and> fecha_hora_inicio h s = fromtimestamp h 0 \<and>
      (fromtimestamp h 0 = Inr d \<and> d \<le> clock h (ticks w) \<longrightarrow>
         (\<exists>w'. check_for_races_sesion cfg h ev s (w, n) = Done (w', n) \<and> jobs w' = jobs w)) \<and>
      ((\<forall>d. fromtimestamp h 0 = Inr d \<longrightarrow> d \<le> clock h (ticks w)) \<longrightarrow>
         jobs (fst (state_of (check_for_races_sesion cfg h ev s (w, n)))) = jobs w \<and>
         snd (state_of (check_for_races_sesion cfg h ev s (w, n))) = n))"
proof (intro conjI impI)
  assume a: "sesion_id s = None"
  then have f: "\<not> truthy (dict_get (sesion_id s) JNull)"
    by (simp add: dict_get_def)
  show "jobs (fst (state_of (check_for_races_sesion cfg h ev s (w, n)))) = jobs w"
    by (cases "timestamp_sesion s") (simp_all add: sesion_raised sesion_falsy [OF _ f])
  show "snd (state_of (check_for_races_sesion cfg h ev s (w, n))) = n"
    by (cases "timestamp_sesion s") (simp_all add: sesion_raised sesion_falsy [OF _ f])
next
  assume a: "sesion_startAt s = None"
  then show z: "timestamp_sesion s = Inr 0"
    by (simp add: dict_get_def timestamp_sesion_def float_overflow_def)
  then show i: "fecha_hora_inicio h s = fromtimestamp h 0"
    by (simp add: fecha_hora_inicio_def)
  {
    assume c: "fromtimestamp h 0 = Inr d \<and> d \<le> clock h (ticks w)"
    with i have i': "fecha_hora_inicio h s = Inr d" by simp
    show "\<exists>w'. check_for_races_sesion cfg h ev s (w, n) = Done (w', n) \<and> jobs w' = jobs w"
    proof (cases "truthy (dict_get (sesion_id s) JNull)")
      case True
      from c sesion_past [OF i' True, of w cfg ev n] show ?thesis by simp
    next
      case False
      from sesion_falsy [OF z False] show ?thesis by simp
    qed
  }
  {
    assume c: "\<forall>d. fromtimestamp h 0 = Inr d \<longrightarrow> d \<le> clock h (ticks w)"
    have "jobs (fst (state_of (check_for_races_sesion cfg h ev s (w, n)))) = jobs w \<and>
         snd (state_of (check_for_races_sesion cfg h ev s (w, n))) = n"
    proof (cases "truthy (dict_get (sesion_id s) JNull)")
      case False
      from sesion_falsy [OF z False] show ?thesis by simp
    next
      case True
      show ?thesis
      proof (cases "fromtimestamp h 0")
        case (Inl e)
        with i have "fecha_hora_inicio h s = Inl e" by simp
        from sesion_raised_inicio [OF True this] show ?thesis by simp
      next
        case (Inr d)
        with i c have "fecha_hora_inicio h s = Inr d" "d \<le> clock h (ticks w)" by simp_all
        from sesion_past [OF this(1) True this(2)] show ?thesis by simp
      qed
    qed
    then show "jobs (fst (state_of (check_for_races_sesion cfg h ev s (w, n)))) = jobs w"
      and "snd (state_of (check_for_races_sesion cfg h ev s (w, n))) = n"
      by simp_all
  }
qed

theorem missing_fields_schedule_nothing_witness:
  "sesion_id sesion_sin_id = None \<and> sesion_startAt sesion_sin_startAt = None \<and>
   fromtimestamp host_ejemplo 0 = Inr 0 \<and>
   0 \<le> clock host_ejemplo (ticks mundo_inicial) \<and>
   jobs (fst (state_of (check_for_races_sesion config_ejemplo host_ejemplo (JStr ''GP'')
                          sesion_sin_id (mundo_inicial, 0)))) = [] \<and>
   (\<exists>w'. check_for_races_sesion config_ejemplo host_ejemplo (JStr ''GP'') sesion_sin_startAt
            (mundo_inicial, 0) = Done (w', 0) \<and> jobs w' = [])"
proof -
  have a: "sesion_id sesion_sin_id = None" "sesion_startAt sesion_sin_startAt = None"
    by (simp_all add: sesion_sin_id_def sesion_sin_startAt_def)
  have b: "fromtimestamp host_ejemplo 0 = Inr 0"
    by (simp add: host_ejemplo_def datetime_min_def datetime_max_def)
  have c: "0 \<le> clock host_ejemplo (ticks mundo_inicial)"
    by (simp add: clock_def host_ejemplo_def)
  have j: "jobs mundo_inicial = []"
    by (simp add: mundo_inicial_def)
  from missing_fields_schedule_nothing
      [of sesion_sin_id config_ejemplo host_ejemplo "JStr ''GP''" mundo_inicial 0 0] a
  have 1: "jobs (fst (state_of (check_for_races_sesion config_ejemplo host_ejemplo (JStr ''GP'')
                          sesion_sin_id (mundo_inicial, 0)))) = []"
    unfolding j by blast
  from missing_fields_schedule_nothing
      [of sesion_sin_startAt config_ejemplo host_ejemplo "JStr ''GP''" mundo_inicial 0 0] a b c
  have 2: "\<exists>w'. check_for_races_sesion config_ejemplo host_ejemplo (JStr ''GP'') sesion_sin_startAt
            (mundo_inicial, 0) = Done (w', 0) \<and> jobs w' = []"
    unfolding j by blast
  from a b c 1 2 show ?thesis by blast
qed

section \<open>The text of a notice\<close>




section \<open>Starting up\<close>









section \<open>A fetch that fails\<close>



section \<open>A session that cannot be processed\<close>

lemma schedules_append_raised:
  "check_for_races_schedules cfg h ev pre st = Done st1 \<Longrightarrow>
   check_for_races_sesion cfg h ev s st1 = Raised e st2 \<Longrightarrow>
   check_for_races_schedules cfg h ev (pre @ s # post) st = Raised e st2"
  by (induction pre arbitrary: st) (auto split: outcome.splits)

lemma carreras_append_raised:
  "check_for_races_carreras cfg h before st = Done st1 \<Longrightarrow>
   check_for_races_schedules cfg h (dict_get (completeName c) default_nombre_evento)
     (case schedules c of None \<Rightarrow> [] | Some ss \<Rightarrow> ss) st1 = Raised e st2 \<Longrightarrow>
   check_for_races_carreras cfg h (before @ c # after) st = Raised e st2"
  by (induction before arbitrary: st) (auto split: outcome.splits)

text \<open>
  C8, as the program has it. The loops of \<^verbatim>\<open>check_for_races\<close> catch nothing. When
  the sessions before \<open>s\<close> have been processed and the \<^verbatim>\<open>startAt\<close> of \<open>s\<close> is not a
  number, the loop over the sessions raises \<^verbatim>\<open>TypeError\<close> in the state those
  sessions left, whatever sessions follow; and the loop over the races raises it too,
  whatever races follow. What was scheduled before stays; what follows is not processed
  in this run.
\<close>

theorem session_error_ends_run:
  "(check_for_races_schedules cfg h ev pre st = Done (w1, n1) \<and>
    (\<forall>T. dict_get (sesion_startAt s) (JNum 0) \<noteq> JNum T) \<longrightarrow>
      check_for_races_schedules cfg h ev (pre @ s # post) st = Raised TypeError (w1, n1)) \<and>
   (check_for_races_carreras cfg h before st = Done (w1, n1) \<and>
    schedules c = Some (pre @ s # post) \<and>
    check_for_races_schedules cfg h (dict_get (completeName c) default_nombre_evento) pre (w1, n1)
      = Done (w2, n2) \<and>
    (\<forall>T. dict_get (sesion_startAt s) (JNum 0) \<noteq> JNum T) \<longrightarrow>
      check_for_races_carreras cfg h (before @ c # after) st = Raised TypeError (w2, n2))"
proof -
  have r: "check_for_races_sesion cfg h ev' s (w, n) = Raised TypeError (w, n)"
    if "\<forall>T. dict_get (sesion_startAt s) (JNum 0) \<noteq> JNum T" for ev' w n
  proof -
    from that have "timestamp_sesion s = Inl TypeError"
      by (cases "dict_get (sesion_startAt s) (JNum 0)") (simp_all add: timestamp_sesion_def)
    then show ?thesis by (rule sesion_raised)
  qed
  show ?thesis
  proof (intro conjI impI)
    assume a: "check_for_races_schedules cfg h ev pre st = Done (w1, n1) \<and>
      (\<forall>T. dict_get (sesion_startAt s) (JNum 0) \<noteq> JNum T)"
    then show "check_for_races_schedules cfg h ev (pre @ s # post) st = Raised TypeError (w1, n1)"
      using schedules_append_raised r by blast
  next
    assume a: "check_for_races_carreras cfg h before st = Done (w1, n1) \<and>
      schedules c = Some (pre @ s # post) \<and>
      check_for_races_schedules cfg h (dict_get (completeName c) default_nombre_evento) pre (w1, n1)
        = Done (w2, n2) \<and>
      (\<forall>T. dict_get (sesion_startAt s) (JNum 0) \<noteq> JNum T)"
    then have "check_for_races_schedules cfg h (dict_get (completeName c) default_nombre_evento)
        (pre @ s # post) (w1, n1) = Raised TypeError (w2, n2)"
      using schedules_append_raised r by blast
    with a show "check_for_races_carreras cfg h (before @ c # after) st = Raised TypeError (w2, n2)"
      using carreras_append_raised [of cfg h before st "(w1, n1)" c TypeError "(w2, n2)" after]
      by simp
  qed
qed


theorem session_error_ends_run_witness:
  "check_for_races_schedules config_ejemplo host_ejemplo (JStr ''GP'') [] (mundo_inicial, 0)
     = Done (mundo_inicial, 0) \<and>
   (\<forall>T. dict_get (sesion_startAt sesion_startAt_null) (JNum 0) \<noteq> JNum T) \<and>
   check_for_races_schedules config_ejemplo host_ejemplo (JStr ''GP'')
     ([] @ sesion_startAt_null # [sesion_futura]) (mundo_inicial, 0)
     = Raised TypeError (mundo_inicial, 0) \<and>
   check_for_races_carreras config_ejemplo host_ejemplo [] (mundo_inicial, 0) = Done (mundo_inicial, 0) \<and>
   schedules carrera_ejemplo = Some ([] @ sesion_startAt_null # [sesion_futura]) \<and>
   check_for_races_carreras config_ejemplo host_ejemplo ([] @ carrera_ejemplo # []) (mundo_inicial, 0)
     = Raised TypeError (mundo_inicial, 0)"
proof -
  have a: "check_for_races_schedules config_ejemplo host_ejemplo ev [] (mundo_inicial, 0)
     = Done (mundo_inicial, 0)" for ev
    by simp
  have b: "\<forall>T. dict_get (sesion_startAt sesion_startAt_null) (JNum 0) \<noteq> JNum T"
    by (simp add: sesion_startAt_null_def dict_get_def)
  have c: "check_for_races_carreras config_ejemplo host_ejemplo [] (mundo_inicial, 0)
     = Done (mundo_inicial, 0)"
    by simp
  have d: "schedules carrera_ejemplo = Some ([] @ sesion_startAt_null # [sesion_futura])"
    by (simp add: carrera_ejemplo_def)
  from session_error_ends_run [of config_ejemplo host_ejemplo "JStr ''GP''" "[]"
      "(mundo_inicial, 0)" mundo_inicial 0 sesion_startAt_null "[sesion_futura]" "[]"
      carrera_ejemplo mundo_inicial 0 "[]"] a b c d
  show ?thesis by blast
qed

text \<open>
  A race with a session whose \<^verbatim>\<open>startAt\<close> is \<^verbatim>\<open>null\<close> followed by a session in
  the future: the run raises and schedules nothing, while the same run without the
  first session schedules both notices of the second.
\<close>

theorem session_error_counterexample:
  "check_for_races config_ejemplo host_ejemplo (Reply (DatosDict (Some [carrera_ejemplo]))) mundo_inicial
     = Raised TypeError (\<lparr>jobs = [], ticks = 1\<rparr>, 0) \<and>
   map job_id (jobs (fst (state_of (check_for_races config_ejemplo host_ejemplo
     (Reply (DatosDict (Some [carrera_ejemplo\<lparr>schedules := Some [sesion_futura]\<rparr>]))) mundo_inicial))))
     = [''s1_channel_8hr'', ''s1_channel_start'']"
  by code_simp

section \<open>Worlds that only grow\<close>










section \<open>Sessions the check passes over\<close>







section \<open>Checking twice\<close>









end
